theory Spec2Isabelle
  imports Main
begin

section \<open>Tech Haven web client: cart reducer, auth state, filters and derived views\<close>

text \<open>
  A shallow embedding of the pure and state-passing parts of
  \<^verbatim>\<open>src/frontend/src/App.js\<close>. Objects are records (the record's extension slot
  stands for whatever further fields the server puts on an object), identifiers and
  tokens are strings and quantities are integers: the client only ever adds whole
  quantities, for which JavaScript's numbers are exact.
\<close>

subsection \<open>Cart lines as objects\<close>

text \<open>
  A cart line is an object with at least \<^verbatim>\<open>product_id\<close> and \<^verbatim>\<open>quantity\<close>. The reducer
  assigns to a field of a line object (line 24) and creates line objects (line 35), so
  lines live in a heap: a reference denotes the object in its \<open>cell\<close>, and the references
  from \<open>fresh\<close> on are the unused ones, handed out one by one to the objects that an
  object literal creates. An array is the list of the references it holds; no array is
  ever assigned to after it is built (the code has no \<^verbatim>\<open>push\<close>, no \<^verbatim>\<open>splice\<close>, no
  indexed assignment to a slot), so an array's own identity does not matter.
\<close>

type_synonym ref = nat

record cart_item =
  product_id :: string
  quantity :: int

record 'a object_heap =
  cell :: "ref \<Rightarrow> 'a cart_item_scheme"
  fresh :: ref

definition new_object :: "'a object_heap \<Rightarrow> 'a cart_item_scheme \<Rightarrow> 'a object_heap \<times> ref" where
  "new_object heap obj =
     (heap\<lparr>cell := (cell heap)(fresh heap := obj), fresh := Suc (fresh heap)\<rparr>, fresh heap)"

subsection \<open>Cart state and actions\<close>

text \<open>
  The cart state is an object with an \<^verbatim>\<open>items\<close> array of lines. A reducer action is a
  \<^verbatim>\<open>type\<close> tag with a payload whose shape depends on the tag:
  \<^item> \<^verbatim>\<open>SET_CART\<close>: an object whose \<^verbatim>\<open>items\<close> field is read, an array of lines (\<open>None\<close> when
    that field is absent or null);
  \<^item> \<^verbatim>\<open>ADD_ITEM\<close>: a line object, which the reducer may put into the array;
  \<^item> \<^verbatim>\<open>REMOVE_ITEM\<close>: a product id;
  \<^item> \<^verbatim>\<open>UPDATE_QUANTITY\<close>: an object of which \<^verbatim>\<open>product_id\<close> and \<^verbatim>\<open>quantity\<close> are read;
  \<^item> \<^verbatim>\<open>CLEAR_CART\<close>: no payload;
  \<^item> any other tag falls to the \<^verbatim>\<open>default\<close> branch.
\<close>

record cart_state =
  items :: "ref list"

datatype action =
    SET_CART "ref list option"
  | ADD_ITEM ref
  | REMOVE_ITEM string
  | UPDATE_QUANTITY cart_item
  | CLEAR_CART
  | OTHER string

text \<open>
  \<^verbatim>\<open>Array.prototype.findIndex\<close>: scan from index 0 upwards, return the first index whose
  element satisfies the predicate, and \<open>-1\<close> when there is none.
\<close>

fun findIndex_from :: "nat \<Rightarrow> ('a \<Rightarrow> bool) \<Rightarrow> 'a list \<Rightarrow> int" where
  "findIndex_from k P [] = - 1"
| "findIndex_from k P (x # xs) = (if P x then int k else findIndex_from (Suc k) P xs)"

definition findIndex :: "('a \<Rightarrow> bool) \<Rightarrow> 'a list \<Rightarrow> int" where
  "findIndex P xs = findIndex_from 0 P xs"

text \<open>
  Lines 33 to 37, the \<^verbatim>\<open>map\<close> of the \<^verbatim>\<open>UPDATE_QUANTITY\<close> branch: a line with the payload's
  \<^verbatim>\<open>product_id\<close> is replaced by a new object, a copy with the payload's quantity
  (\<^verbatim>\<open>{ ...item, quantity: action.payload.quantity }\<close>); any other line stays, the same
  object as before.
\<close>

fun map_update_quantity :: "'a object_heap \<Rightarrow> cart_item \<Rightarrow> ref list \<Rightarrow> 'a object_heap \<times> ref list" where
  "map_update_quantity heap payload [] = (heap, [])"
| "map_update_quantity heap payload (item # rest) =
     (if product_id (cell heap item) = product_id payload then
        let (heap, copy) = new_object heap ((cell heap item)\<lparr>quantity := quantity payload\<rparr>);
            (heap, rest) = map_update_quantity heap payload rest
        in (heap, copy # rest)
      else
        let (heap, rest) = map_update_quantity heap payload rest
        in (heap, item # rest))"

text \<open>
  The reducer (lines 16 to 44), from the heap and the state before to the heap and the
  state after. \<^verbatim>\<open>{ ...state, items: e }\<close> is a record update. In the \<^verbatim>\<open>ADD_ITEM\<close> branch
  \<^verbatim>\<open>[...state.items]\<close> copies the array, not the lines, and line 24 assigns to the
  \<^verbatim>\<open>quantity\<close> field of the line object at \<^verbatim>\<open>existingIndex\<close>: the heap changes at that
  object, for every array that holds it.
\<close>

fun cartReducer ::
  "'a object_heap \<Rightarrow> 'b cart_state_scheme \<Rightarrow> action \<Rightarrow> 'a object_heap \<times> 'b cart_state_scheme" where
  "cartReducer heap state (SET_CART payload_items) =
     (heap, state\<lparr>items := (case payload_items of Some xs \<Rightarrow> xs | None \<Rightarrow> [])\<rparr>)"
| "cartReducer heap state (ADD_ITEM payload) =
     (let existingIndex =
            findIndex (\<lambda>item. product_id (cell heap item) = product_id (cell heap payload))
              (items state)
      in if existingIndex \<ge> 0 then
           let newItems = items state;
               line = newItems ! nat existingIndex;
               heap = heap\<lparr>cell := (cell heap)
                        (line := (cell heap line)
                           \<lparr>quantity := quantity (cell heap line) + quantity (cell heap payload)\<rparr>)\<rparr>
           in (heap, state\<lparr>items := newItems\<rparr>)
         else (heap, state\<lparr>items := items state @ [payload]\<rparr>))"
| "cartReducer heap state (REMOVE_ITEM payload) =
     (heap, state\<lparr>items := filter (\<lambda>item. product_id (cell heap item) \<noteq> payload) (items state)\<rparr>)"
| "cartReducer heap state (UPDATE_QUANTITY payload) =
     (let (heap, newItems) = map_update_quantity heap payload (items state)
      in (heap, state\<lparr>items := newItems\<rparr>))"
| "cartReducer heap state CLEAR_CART = (heap, state\<lparr>items := []\<rparr>)"
| "cartReducer heap state (OTHER t) = (heap, state)"

text \<open>
  What a state shows: its lines, read in a heap; and the lines of the state that the
  reducer returns, read in the heap that it leaves.
\<close>

definition lines :: "'a object_heap \<Rightarrow> 'b cart_state_scheme \<Rightarrow> 'a cart_item_scheme list" where
  "lines heap state = map (cell heap) (items state)"

definition lines_after ::
  "'a object_heap \<Rightarrow> 'b cart_state_scheme \<Rightarrow> action \<Rightarrow> 'a cart_item_scheme list" where
  "lines_after heap state action =
     (case cartReducer heap state action of (heap', state') \<Rightarrow> lines heap' state')"

text \<open>The Header's cart badge (line 187): a left fold over the lines, starting at 0.\<close>

definition cartItemCount :: "'a object_heap \<Rightarrow> 'b cart_state_scheme \<Rightarrow> int" where
  "cartItemCount heap cartState =
     foldl (\<lambda>total item. total + quantity (cell heap item)) 0 (items cartState)"

subsection \<open>Auth state\<close>

text \<open>
  What \<^verbatim>\<open>AuthProvider\<close> reads and writes: the \<^verbatim>\<open>token\<close> entry of local storage, the
  \<^verbatim>\<open>Authorization\<close> entry of the HTTP client's default headers, and the two pieces of
  component state \<^verbatim>\<open>user\<close> (\<open>None\<close> is \<^verbatim>\<open>null\<close>, signed out) and \<^verbatim>\<open>loading\<close>.
  A request either fails (network error or error status; the promise rejects) or delivers
  the response's data. An endpoint is a parameter of the operation that calls it;
  \<^verbatim>\<open>GET /api/me\<close> is a function of the \<^verbatim>\<open>Authorization\<close> header sent along.
  An operation returns what its promise settles to (\<open>Inl\<close>: rejected) and the state
  afterwards.
\<close>

datatype api_error = NetworkError | HttpStatus nat

record 'u auth_state =
  token :: "string option"
  authorization :: "string option"
  user :: "'u option"
  loading :: bool

record login_response =
  access_token :: string

text \<open>Lines 48 and 49: the component state at mount, over whatever local storage holds.\<close>

definition initial_auth :: "string option \<Rightarrow> 'u auth_state" where
  "initial_auth stored = \<lparr>token = stored, authorization = None, user = None, loading = True\<rparr>"

text \<open>Lines 61 to 71: \<^verbatim>\<open>try\<close> / \<^verbatim>\<open>catch\<close> / \<^verbatim>\<open>finally\<close>; the \<^verbatim>\<open>catch\<close> swallows the error.\<close>

definition fetchUser ::
  "(string option \<Rightarrow> api_error + 'u) \<Rightarrow> 'u auth_state \<Rightarrow> (api_error + unit) \<times> 'u auth_state" where
  "fetchUser get_me st =
     (let st = (case get_me (authorization st) of
                  Inr data \<Rightarrow> st\<lparr>user := Some data\<rparr>
                | Inl error \<Rightarrow> (st\<lparr>token := None\<rparr>)\<lparr>authorization := None\<rparr>)
      in (Inr (), st\<lparr>loading := False\<rparr>))"

text \<open>
  Lines 51 to 59, the effect run once at mount. An empty string is falsy, so an empty
  stored token takes the \<^verbatim>\<open>else\<close> branch. The call of \<^verbatim>\<open>fetchUser\<close> is not awaited.
\<close>

definition mount_effect ::
  "(string option \<Rightarrow> api_error + 'u) \<Rightarrow> 'u auth_state \<Rightarrow> 'u auth_state" where
  "mount_effect get_me st =
     (case token st of
        Some t \<Rightarrow>
          if t \<noteq> [] then snd (fetchUser get_me (st\<lparr>authorization := Some (''Bearer '' @ t)\<rparr>))
          else st\<lparr>loading := False\<rparr>
      | None \<Rightarrow> st\<lparr>loading := False\<rparr>)"

text \<open>Lines 73 to 80. A rejected \<^verbatim>\<open>POST /api/login\<close> leaves before anything is written.\<close>

definition login ::
  "(string \<Rightarrow> string \<Rightarrow> api_error + 'r login_response_scheme) \<Rightarrow>
   (string option \<Rightarrow> api_error + 'u) \<Rightarrow> string \<Rightarrow> string \<Rightarrow> 'u auth_state \<Rightarrow>
   (api_error + 'r login_response_scheme) \<times> 'u auth_state" where
  "login post_login get_me email password st =
     (case post_login email password of
        Inl error \<Rightarrow> (Inl error, st)
      | Inr data \<Rightarrow>
          let st = st\<lparr>token := Some (access_token data)\<rparr>;
              st = st\<lparr>authorization := Some (''Bearer '' @ access_token data)\<rparr>;
              st = snd (fetchUser get_me st)
          in (Inr data, st))"

text \<open>Lines 82 to 85.\<close>

definition register ::
  "('f \<Rightarrow> api_error + 'r) \<Rightarrow> 'f \<Rightarrow> 'u auth_state \<Rightarrow> (api_error + 'r) \<times> 'u auth_state" where
  "register post_register userData st =
     (case post_register userData of
        Inl error \<Rightarrow> (Inl error, st)
      | Inr data \<Rightarrow> (Inr data, st))"

text \<open>Lines 87 to 91.\<close>

definition logout :: "'u auth_state \<Rightarrow> 'u auth_state" where
  "logout st = ((st\<lparr>token := None\<rparr>)\<lparr>authorization := None\<rparr>)\<lparr>user := None\<rparr>"

subsection \<open>Catalog fetch and the Products page filters\<close>

text \<open>
  The filter object maps a key to the control's string value. \<^verbatim>\<open>fetchProducts\<close> (lines
  112 to 120) sends the entries of its argument as the query parameters of
  \<^verbatim>\<open>GET /api/products\<close>, an endpoint that is a function of these parameters here, and
  replaces the product list by the response's data; when the request fails it logs the
  error and the product list stays. It is given the product list before and returns the
  product list after.
\<close>

type_synonym filters = "string \<rightharpoonup> string"

definition fetchProducts ::
  "(filters \<Rightarrow> api_error + 'p list) \<Rightarrow> filters \<Rightarrow> 'p list \<Rightarrow> 'p list" where
  "fetchProducts get_products params products =
     (case get_products params of
        Inr data \<Rightarrow> data
      | Inl error \<Rightarrow> products)"

text \<open>
  \<^verbatim>\<open>handleFilterChange\<close> (lines 386 to 395) copies the filter object, deletes or sets the
  key, stores the copy with \<^verbatim>\<open>setFilters\<close> and passes the same copy to \<^verbatim>\<open>fetchProducts\<close>.
  The result records the filter object stored, the parameters of the request sent, and
  the product list on display once that request has settled.
\<close>

record 'p filter_change =
  stored_filters :: filters
  request_params :: filters
  shown_products :: "'p list"

definition handleFilterChange ::
  "(filters \<Rightarrow> api_error + 'p list) \<Rightarrow> filters \<Rightarrow> 'p list \<Rightarrow> string \<Rightarrow> string \<Rightarrow> 'p filter_change" where
  "handleFilterChange get_products filters products key v =
     (let newFilters = filters;
          newFilters = (if v = [] then newFilters(key := None) else newFilters(key \<mapsto> v))
      in \<lparr>stored_filters = newFilters, request_params = newFilters,
          shown_products = fetchProducts get_products newFilters products\<rparr>)"


subsection \<open>Home page\<close>

text \<open>Line 333: \<^verbatim>\<open>products.filter(p => p.featured).slice(0, 3)\<close>.\<close>

record product =
  featured :: bool

definition featuredProducts :: "'a product_scheme list \<Rightarrow> 'a product_scheme list" where
  "featuredProducts products = take 3 (filter featured products)"

text \<open>
  The specification's wording, for comparison with \<open>featuredProducts\<close>: walk the catalog
  list in order and collect featured products until \<open>n\<close> are collected or the list ends.
\<close>

fun spec_first_featured :: "nat \<Rightarrow> 'a product_scheme list \<Rightarrow> 'a product_scheme list" where
  "spec_first_featured n [] = []"
| "spec_first_featured 0 (p # ps) = []"
| "spec_first_featured (Suc n) (p # ps) =
     (if featured p then p # spec_first_featured n ps else spec_first_featured (Suc n) ps)"

subsection \<open>\<^verbatim>\<open>findIndex\<close>\<close>

lemma findIndex_from_none:
  "(\<forall>x\<in>set xs. \<not> P x) \<Longrightarrow> findIndex_from k P xs = - 1"
  by (induction xs arbitrary: k) simp_all

lemma findIndex_from_some:
  "\<exists>x\<in>set xs. P x \<Longrightarrow>
   \<exists>i<length xs. findIndex_from k P xs = int (k + i) \<and> P (xs ! i) \<and> (\<forall>j<i. \<not> P (xs ! j))"
proof (induction xs arbitrary: k)
  case Nil
  then show ?case by simp
next
  case (Cons x xs)
  show ?case
  proof (cases "P x")
    case True
    then have "findIndex_from k P (x # xs) = int (k + 0) \<and> P ((x # xs) ! 0) \<and> (\<forall>j<0. \<not> P ((x # xs) ! j))"
      by simp
    then show ?thesis by blast
  next
    case False
    with Cons.prems have "\<exists>y\<in>set xs. P y" by auto
    from Cons.IH [OF this, of "Suc k"] obtain i where i: "i < length xs"
      "findIndex_from (Suc k) P xs = int (Suc k + i)" "P (xs ! i)" "\<forall>j<i. \<not> P (xs ! j)"
      by blast
    have "\<forall>j<Suc i. \<not> P ((x # xs) ! j)"
      using False i(4) by (auto simp: less_Suc_eq_0_disj)
    with False i have "Suc i < length (x # xs) \<and> findIndex_from k P (x # xs) = int (k + Suc i)
        \<and> P ((x # xs) ! Suc i) \<and> (\<forall>j<Suc i. \<not> P ((x # xs) ! j))"
      by simp
    then show ?thesis by blast
  qed
qed

lemma findIndex_none: "(\<forall>x\<in>set xs. \<not> P x) \<Longrightarrow> findIndex P xs = - 1"
  by (simp add: findIndex_def findIndex_from_none)

lemma findIndex_some:
  "\<exists>x\<in>set xs. P x \<Longrightarrow>
   \<exists>i<length xs. findIndex P xs = int i \<and> P (xs ! i) \<and> (\<forall>j<i. \<not> P (xs ! j))"
  using findIndex_from_some [of xs P 0] by (simp add: findIndex_def)

subsection \<open>The \<^verbatim>\<open>ADD_ITEM\<close> branch\<close>

lemma add_item_absent:
  assumes "\<forall>r\<in>set (items state). product_id (cell heap r) \<noteq> product_id (cell heap payload)"
  shows "cartReducer heap state (ADD_ITEM payload) = (heap, state\<lparr>items := items state @ [payload]\<rparr>)"
proof -
  have "findIndex (\<lambda>item. product_id (cell heap item) = product_id (cell heap payload)) (items state)
        = - 1"
    using assms by (intro findIndex_none) simp
  then show ?thesis by simp
qed

lemma add_item_present:
  assumes "\<exists>r\<in>set (items state). product_id (cell heap r) = product_id (cell heap payload)"
  shows "\<exists>i<length (items state).
           product_id (cell heap (items state ! i)) = product_id (cell heap payload) \<and>
           (\<forall>j<i. product_id (cell heap (items state ! j)) \<noteq> product_id (cell heap payload)) \<and>
           cartReducer heap state (ADD_ITEM payload) =
             (heap\<lparr>cell := (cell heap)
                (items state ! i := (cell heap (items state ! i))
                   \<lparr>quantity := quantity (cell heap (items state ! i)) + quantity (cell heap payload)\<rparr>)\<rparr>,
              state)"
proof -
  let ?P = "\<lambda>item. product_id (cell heap item) = product_id (cell heap payload)"
  from findIndex_some [of "items state" ?P] assms
  obtain i where i: "i < length (items state)" "findIndex ?P (items state) = int i"
      "?P (items state ! i)" "\<forall>j<i. \<not> ?P (items state ! j)"
    by blast
  have "cartReducer heap state (ADD_ITEM payload) =
             (heap\<lparr>cell := (cell heap)
                (items state ! i := (cell heap (items state ! i))
                   \<lparr>quantity := quantity (cell heap (items state ! i)) + quantity (cell heap payload)\<rparr>)\<rparr>,
              state)"
    using i(2) by (simp add: Let_def)
  with i show ?thesis by blast
qed






text \<open>
  The assignment is visible through the previous state as well: its only line reads
  quantity 2 in the heap after the call, where it read 1 before.
\<close>

lemma add_item_changes_previous_state:
  "(case cartReducer
      \<lparr>cell = (\<lambda>r. \<lparr>product_id = ''a'', quantity = 1\<rparr>), fresh = 2\<rparr> \<lparr>items = [0]\<rparr> (ADD_ITEM 1) of
      (heap1, state1) \<Rightarrow> lines heap1 \<lparr>items = [0]\<rparr>)
   = [\<lparr>product_id = ''a'', quantity = 2\<rparr>]"
  by (simp add: lines_def findIndex_def)


subsection \<open>The \<^verbatim>\<open>UPDATE_QUANTITY\<close> branch\<close>

lemma map_update_quantity_no_match:
  "\<forall>item\<in>set rs. product_id (cell heap item) \<noteq> product_id payload \<Longrightarrow>
   map_update_quantity heap payload rs = (heap, rs)"
  by (induction rs) simp_all

text \<open>
  When the lines of the array are allocated objects, the new objects are allocated after
  them, the old objects are as before, and the array returned shows the lines of the
  array given, those with the payload's \<^verbatim>\<open>product_id\<close> carrying the payload's quantity.
\<close>

lemma map_update_quantity_lines:
  assumes "\<forall>r\<in>set rs. r < fresh heap"
  shows "case map_update_quantity heap payload rs of (heap', rs') \<Rightarrow>
           fresh heap \<le> fresh heap' \<and>
           (\<forall>r<fresh heap. cell heap' r = cell heap r) \<and>
           (\<forall>r\<in>set rs'. r < fresh heap') \<and>
           map (cell heap') rs' =
             map (\<lambda>item. if product_id item = product_id payload
                          then item\<lparr>quantity := quantity payload\<rparr> else item)
               (map (cell heap) rs)"
  using assms
proof (induction rs arbitrary: heap)
  case Nil
  then show ?case by simp
next
  case (Cons item rest)
  show ?case
  proof (cases "product_id (cell heap item) = product_id payload")
    case True
    let ?obj = "(cell heap item)\<lparr>quantity := quantity payload\<rparr>"
    let ?heap1 = "heap\<lparr>cell := (cell heap)(fresh heap := ?obj), fresh := Suc (fresh heap)\<rparr>"
    obtain heap' rest' where rec: "map_update_quantity ?heap1 payload rest = (heap', rest')"
      by (cases "map_update_quantity ?heap1 payload rest")
    have "\<forall>r\<in>set rest. r < fresh ?heap1"
      using Cons.prems by auto
    from Cons.IH [OF this] rec have ih: "fresh ?heap1 \<le> fresh heap'"
        "\<forall>r<fresh ?heap1. cell heap' r = cell ?heap1 r"
        "\<forall>r\<in>set rest'. r < fresh heap'"
        "map (cell heap') rest' =
           map (\<lambda>item. if product_id item = product_id payload
                        then item\<lparr>quantity := quantity payload\<rparr> else item)
             (map (cell ?heap1) rest)"
      by simp_all
    have same_rest: "map (cell ?heap1) rest = map (cell heap) rest"
      using Cons.prems by auto
    have copy: "cell heap' (fresh heap) = ?obj"
      using ih(2) by simp
    have frame: "\<forall>r<fresh heap. cell heap' r = cell heap r"
      using ih(2) by simp
    have result: "map_update_quantity heap payload (item # rest) = (heap', fresh heap # rest')"
      using True rec by (simp add: new_object_def)
    show ?thesis
      unfolding result using True ih(1,3,4) same_rest copy frame by auto
  next
    case False
    obtain heap' rest' where rec: "map_update_quantity heap payload rest = (heap', rest')"
      by (cases "map_update_quantity heap payload rest")
    have "\<forall>r\<in>set rest. r < fresh heap"
      using Cons.prems by auto
    from Cons.IH [OF this] rec have ih: "fresh heap \<le> fresh heap'"
        "\<forall>r<fresh heap. cell heap' r = cell heap r"
        "\<forall>r\<in>set rest'. r < fresh heap'"
        "map (cell heap') rest' =
           map (\<lambda>item. if product_id item = product_id payload
                        then item\<lparr>quantity := quantity payload\<rparr> else item)
             (map (cell heap) rest)"
      by simp_all
    have result: "map_update_quantity heap payload (item # rest) = (heap', item # rest')"
      using False rec by simp
    have "item < fresh heap" using Cons.prems by simp
    with ih(1,2) have "item < fresh heap'" "cell heap' item = cell heap item" by auto
    then show ?thesis
      unfolding result using False ih by simp
  qed
qed

lemma update_quantity_lines:
  assumes "\<forall>r\<in>set (items state). r < fresh heap"
  shows "lines_after heap state (UPDATE_QUANTITY payload) =
           map (\<lambda>item. if product_id item = product_id payload
                        then item\<lparr>quantity := quantity payload\<rparr> else item)
             (lines heap state)"
  using map_update_quantity_lines [OF assms, of payload]
  by (simp add: lines_after_def lines_def split: prod.splits)


subsection \<open>One cart line per product\<close>

lemma add_item_product_ids:
  "map product_id (lines_after heap state (ADD_ITEM payload)) =
     (if \<exists>r\<in>set (items state). product_id (cell heap r) = product_id (cell heap payload)
      then map product_id (lines heap state)
      else map product_id (lines heap state) @ [product_id (cell heap payload)])"
proof (cases "\<exists>r\<in>set (items state). product_id (cell heap r) = product_id (cell heap payload)")
  case True
  from add_item_present [OF True] obtain i where
    "cartReducer heap state (ADD_ITEM payload) =
       (heap\<lparr>cell := (cell heap)
          (items state ! i := (cell heap (items state ! i))
             \<lparr>quantity := quantity (cell heap (items state ! i)) + quantity (cell heap payload)\<rparr>)\<rparr>,
        state)"
    by blast
  then have "map product_id (lines_after heap state (ADD_ITEM payload)) =
               map product_id (lines heap state)"
    unfolding lines_after_def by (simp add: lines_def)
  with True show ?thesis by (simp only: if_True)
next
  case False
  then have "\<forall>r\<in>set (items state). product_id (cell heap r) \<noteq> product_id (cell heap payload)"
    by blast
  from add_item_absent [OF this] have
    "map product_id (lines_after heap state (ADD_ITEM payload)) =
       map product_id (lines heap state) @ [product_id (cell heap payload)]"
    by (simp add: lines_after_def lines_def)
  with False show ?thesis by (simp only: if_False)
qed

lemma update_quantity_product_ids:
  assumes "\<forall>r\<in>set (items state). r < fresh heap"
  shows "map product_id (lines_after heap state (UPDATE_QUANTITY payload)) =
           map product_id (lines heap state)"
  unfolding update_quantity_lines [OF assms]
  by (induction "lines heap state") (simp_all add: comp_def cong: map_cong)


text \<open>
  Claim C2, amended. For every cart state whose item list has pairwise distinct
  \<^verbatim>\<open>product_id\<close> values, \<^verbatim>\<open>ADD_ITEM\<close>, \<^verbatim>\<open>REMOVE_ITEM\<close>, \<^verbatim>\<open>UPDATE_QUANTITY\<close> and
  \<^verbatim>\<open>CLEAR_CART\<close> with any payload, and \<^verbatim>\<open>SET_CART\<close> with a payload whose items are absent
  or themselves pairwise distinct in \<^verbatim>\<open>product_id\<close>, yield a state whose item list has
  pairwise distinct \<^verbatim>\<open>product_id\<close> values. The state's lines are objects that exist: their
  references are allocated.
\<close>

theorem reducer_keeps_product_ids_distinct:
  assumes "distinct (map product_id (lines heap state))"
    and "\<forall>r\<in>set (items state). r < fresh heap"
    and "\<forall>xs. action = SET_CART (Some xs) \<longrightarrow> distinct (map product_id (map (cell heap) xs))"
  shows "distinct (map product_id (lines_after heap state action))"
proof (cases action)
  case (SET_CART payload_items)
  with assms(3) show ?thesis
    by (cases payload_items) (simp_all add: lines_after_def lines_def)
next
  case (ADD_ITEM payload)
  show ?thesis
  proof (cases "\<exists>r\<in>set (items state). product_id (cell heap r) = product_id (cell heap payload)")
    case True
    with assms(1) show ?thesis
      unfolding ADD_ITEM add_item_product_ids by (simp only: if_True)
  next
    case False
    then have "product_id (cell heap payload) \<notin> set (map product_id (lines heap state))"
      by (auto simp: lines_def)
    with assms(1) False show ?thesis
      unfolding ADD_ITEM add_item_product_ids by (simp only: if_False distinct_append) simp
  qed
next
  case (REMOVE_ITEM payload)
  have "lines_after heap state (REMOVE_ITEM payload) =
          filter (\<lambda>item. product_id item \<noteq> payload) (lines heap state)"
    by (simp add: lines_after_def lines_def filter_map comp_def)
  with assms(1) show ?thesis
    unfolding REMOVE_ITEM by (simp add: distinct_map_filter)
next
  case (UPDATE_QUANTITY payload)
  with assms(1) show ?thesis
    by (simp only: update_quantity_product_ids [OF assms(2)])
next
  case CLEAR_CART
  then show ?thesis by (simp add: lines_after_def lines_def)
next
  case (OTHER t)
  with assms(1) show ?thesis by (simp add: lines_after_def)
qed

text \<open>
  The invariant kept at concrete carts: by a \<^verbatim>\<open>SET_CART\<close> whose payload has two distinct
  products, and by an \<^verbatim>\<open>UPDATE_QUANTITY\<close> for a product in the cart.
\<close>

theorem reducer_keeps_product_ids_distinct_witness:
  "distinct (map product_id (lines_after
      \<lparr>cell = (\<lambda>r. \<lparr>product_id = ''c'', quantity = 1\<rparr>)
                (0 := \<lparr>product_id = ''a'', quantity = 1\<rparr>, 1 := \<lparr>product_id = ''b'', quantity = 2\<rparr>),
       fresh = 3\<rparr>
      \<lparr>items = [0]\<rparr> (SET_CART (Some [1, 2]))))
   \<and> distinct (map product_id (lines_after
      \<lparr>cell = (\<lambda>r. \<lparr>product_id = ''c'', quantity = 1\<rparr>)
                (0 := \<lparr>product_id = ''a'', quantity = 1\<rparr>, 1 := \<lparr>product_id = ''b'', quantity = 2\<rparr>),
       fresh = 3\<rparr>
      \<lparr>items = [0, 1]\<rparr> (UPDATE_QUANTITY \<lparr>product_id = ''b'', quantity = 7\<rparr>)))"
  using reducer_keeps_product_ids_distinct
          [of "\<lparr>cell = (\<lambda>r. \<lparr>product_id = ''c'', quantity = 1\<rparr>)
                (0 := \<lparr>product_id = ''a'', quantity = 1\<rparr>, 1 := \<lparr>product_id = ''b'', quantity = 2\<rparr>),
               fresh = 3\<rparr>"
              "\<lparr>items = [0]\<rparr>" "SET_CART (Some [1, 2])"]
        reducer_keeps_product_ids_distinct
          [of "\<lparr>cell = (\<lambda>r. \<lparr>product_id = ''c'', quantity = 1\<rparr>)
                (0 := \<lparr>product_id = ''a'', quantity = 1\<rparr>, 1 := \<lparr>product_id = ''b'', quantity = 2\<rparr>),
               fresh = 3\<rparr>"
              "\<lparr>items = [0, 1]\<rparr>" "UPDATE_QUANTITY \<lparr>product_id = ''b'', quantity = 7\<rparr>"]
  by (simp add: lines_def lines_after_def new_object_def)

text \<open>
  Claim C2 as stated fails for \<^verbatim>\<open>SET_CART\<close>: the payload's list replaces the item list
  wholesale, so from the empty cart (whose product ids are trivially distinct) a payload
  with two lines for the same product gives a state with two lines for that product.
\<close>

theorem set_cart_duplicates_counterexample:
  "distinct (map product_id
      (lines \<lparr>cell = (\<lambda>r. \<lparr>product_id = ''p'', quantity = 1\<rparr>), fresh = 2\<rparr> \<lparr>items = []\<rparr>))
   \<and> \<not> distinct (map product_id
      (lines_after \<lparr>cell = (\<lambda>r. \<lparr>product_id = ''p'', quantity = 1\<rparr>), fresh = 2\<rparr> \<lparr>items = []\<rparr>
         (SET_CART (Some [0, 1]))))"
  by (simp add: lines_def lines_after_def)

text \<open>
  That the state's references are allocated is an invariant of the reducer, given that
  the payload's lines are allocated objects too.
\<close>

lemma cartReducer_keeps_references_allocated:
  assumes "\<forall>r\<in>set (items state). r < fresh heap"
    and "\<forall>payload. action = ADD_ITEM payload \<longrightarrow> payload < fresh heap"
    and "\<forall>xs. action = SET_CART (Some xs) \<longrightarrow> (\<forall>r\<in>set xs. r < fresh heap)"
  shows "case cartReducer heap state action of
           (heap', state') \<Rightarrow> fresh heap \<le> fresh heap' \<and> (\<forall>r\<in>set (items state'). r < fresh heap')"
proof (cases action)
  case (SET_CART payload_items)
  with assms(3) show ?thesis by (cases payload_items) simp_all
next
  case (ADD_ITEM payload)
  with assms(1,2) show ?thesis by (simp add: Let_def)
next
  case (REMOVE_ITEM payload)
  with assms(1) show ?thesis by simp
next
  case (UPDATE_QUANTITY payload)
  with map_update_quantity_lines [OF assms(1), of payload] show ?thesis
    by (simp split: prod.splits)
next
  case CLEAR_CART
  then show ?thesis by simp
next
  case (OTHER t)
  with assms(1) show ?thesis by simp
qed


subsection \<open>The cart badge\<close>

lemma foldl_quantity_sum:
  "foldl (\<lambda>total item. total + quantity (cell heap item)) a rs
   = a + sum_list (map quantity (map (cell heap) rs))"
  by (induction rs arbitrary: a) simp_all

text \<open>
  Claim C5. For every cart state, the item count shown by the Header's cart toggle is the
  sum of the \<^verbatim>\<open>quantity\<close> fields over all lines of the state's item list, and it is 0 for
  the empty cart.
\<close>

theorem cartItemCount_is_sum:
  "cartItemCount heap cartState = sum_list (map quantity (lines heap cartState))
   \<and> cartItemCount heap (cartState\<lparr>items := []\<rparr>) = 0"
  by (simp add: cartItemCount_def lines_def foldl_quantity_sum)

text \<open>The badge of a cart with quantities 1 and 2 shows 3; the empty cart shows 0.\<close>

theorem cartItemCount_is_sum_witness:
  "cartItemCount
     \<lparr>cell = (\<lambda>r. \<lparr>product_id = ''b'', quantity = 2\<rparr>)(0 := \<lparr>product_id = ''a'', quantity = 1\<rparr>),
      fresh = 2\<rparr> \<lparr>items = [0, 1]\<rparr> = 3
   \<and> cartItemCount
     \<lparr>cell = (\<lambda>r. \<lparr>product_id = ''b'', quantity = 2\<rparr>)(0 := \<lparr>product_id = ''a'', quantity = 1\<rparr>),
      fresh = 2\<rparr> \<lparr>items = []\<rparr> = 0"
  using cartItemCount_is_sum
     [of "\<lparr>cell = (\<lambda>r. \<lparr>product_id = ''b'', quantity = 2\<rparr>)(0 := \<lparr>product_id = ''a'', quantity = 1\<rparr>),
           fresh = 2\<rparr>" "\<lparr>items = [0, 1]\<rparr>"]
  by (simp add: lines_def)

subsection \<open>Remaining reducer transitions\<close>

text \<open>
  Claim C8. For every cart state and every \<^verbatim>\<open>UPDATE_QUANTITY\<close> action whose \<^verbatim>\<open>product_id\<close>
  matches no line of the state's item list, the reducer returns a state equal to the
  input and leaves the heap as it is: the item list is identical, no line added or
  changed, and nothing is signalled.
\<close>

theorem update_quantity_unknown_product:
  assumes "\<forall>item\<in>set (items state). product_id (cell heap item) \<noteq> product_id payload"
  shows "cartReducer heap state (UPDATE_QUANTITY payload) = (heap, state)
       \<and> lines_after heap state (UPDATE_QUANTITY payload) = lines heap state"
  using map_update_quantity_no_match [OF assms]
  by (simp add: lines_after_def)

text \<open>Updating product \<open>c\<close> in a cart holding \<open>a\<close> and \<open>b\<close> changes nothing.\<close>

theorem update_quantity_unknown_product_witness:
  "cartReducer
     \<lparr>cell = (\<lambda>r. \<lparr>product_id = ''b'', quantity = 2\<rparr>)(0 := \<lparr>product_id = ''a'', quantity = 1\<rparr>),
      fresh = 2\<rparr> \<lparr>items = [0, 1]\<rparr> (UPDATE_QUANTITY \<lparr>product_id = ''c'', quantity = 7\<rparr>)
   = (\<lparr>cell = (\<lambda>r. \<lparr>product_id = ''b'', quantity = 2\<rparr>)(0 := \<lparr>product_id = ''a'', quantity = 1\<rparr>),
       fresh = 2\<rparr>, \<lparr>items = [0, 1]\<rparr>)"
  using update_quantity_unknown_product
     [of "\<lparr>items = [0, 1]\<rparr>"
         "\<lparr>cell = (\<lambda>r. \<lparr>product_id = ''b'', quantity = 2\<rparr>)(0 := \<lparr>product_id = ''a'', quantity = 1\<rparr>),
           fresh = 2\<rparr>"
         "\<lparr>product_id = ''c'', quantity = 7\<rparr>"]
  by simp

text \<open>
  A matching line, by contrast, is replaced by a new object with the payload's quantity;
  the previous state still shows the old quantity.
\<close>

lemma update_quantity_known_product:
  "lines_after
     \<lparr>cell = (\<lambda>r. \<lparr>product_id = ''b'', quantity = 2\<rparr>)(0 := \<lparr>product_id = ''a'', quantity = 1\<rparr>),
      fresh = 2\<rparr> \<lparr>items = [0, 1]\<rparr> (UPDATE_QUANTITY \<lparr>product_id = ''b'', quantity = 7\<rparr>)
   = [\<lparr>product_id = ''a'', quantity = 1\<rparr>, \<lparr>product_id = ''b'', quantity = 7\<rparr>]
   \<and> lines
     (fst (cartReducer
        \<lparr>cell = (\<lambda>r. \<lparr>product_id = ''b'', quantity = 2\<rparr>)(0 := \<lparr>product_id = ''a'', quantity = 1\<rparr>),
         fresh = 2\<rparr> \<lparr>items = [0, 1]\<rparr> (UPDATE_QUANTITY \<lparr>product_id = ''b'', quantity = 7\<rparr>)))
     \<lparr>items = [0, 1]\<rparr>
   = [\<lparr>product_id = ''a'', quantity = 1\<rparr>, \<lparr>product_id = ''b'', quantity = 2\<rparr>]"
  by (simp add: lines_def lines_after_def new_object_def)

text \<open>
  Claim C9. \<^verbatim>\<open>REMOVE_ITEM\<close> is idempotent: for every cart state and product id, applying it
  twice with the same id gives the same state as applying it once; and applied to a state
  with no line for that id it returns the state, and so the item list, unchanged.
\<close>

theorem remove_item_idempotent:
  "(case cartReducer heap state (REMOVE_ITEM p) of
      (heap1, state1) \<Rightarrow> cartReducer heap1 state1 (REMOVE_ITEM p))
     = cartReducer heap state (REMOVE_ITEM p)
   \<and> ((\<forall>item\<in>set (items state). product_id (cell heap item) \<noteq> p) \<longrightarrow>
        cartReducer heap state (REMOVE_ITEM p) = (heap, state)
        \<and> lines_after heap state (REMOVE_ITEM p) = lines heap state)"
proof (intro conjI impI)
  show "(case cartReducer heap state (REMOVE_ITEM p) of
      (heap1, state1) \<Rightarrow> cartReducer heap1 state1 (REMOVE_ITEM p))
     = cartReducer heap state (REMOVE_ITEM p)"
    by simp
next
  assume absent: "\<forall>item\<in>set (items state). product_id (cell heap item) \<noteq> p"
  then have "filter (\<lambda>item. product_id (cell heap item) \<noteq> p) (items state) = items state"
    by (simp add: filter_id_conv)
  then show "cartReducer heap state (REMOVE_ITEM p) = (heap, state)"
    and "lines_after heap state (REMOVE_ITEM p) = lines heap state"
    by (simp_all add: lines_after_def)
qed

text \<open>Removing an absent product, and removing a present product twice.\<close>

theorem remove_item_idempotent_witness:
  "cartReducer
     \<lparr>cell = (\<lambda>r. \<lparr>product_id = ''b'', quantity = 2\<rparr>)(0 := \<lparr>product_id = ''a'', quantity = 1\<rparr>),
      fresh = 2\<rparr> \<lparr>items = [0, 1]\<rparr> (REMOVE_ITEM ''c'')
   = (\<lparr>cell = (\<lambda>r. \<lparr>product_id = ''b'', quantity = 2\<rparr>)(0 := \<lparr>product_id = ''a'', quantity = 1\<rparr>),
       fresh = 2\<rparr>, \<lparr>items = [0, 1]\<rparr>)
   \<and> (case cartReducer
        \<lparr>cell = (\<lambda>r. \<lparr>product_id = ''b'', quantity = 2\<rparr>)(0 := \<lparr>product_id = ''a'', quantity = 1\<rparr>),
         fresh = 2\<rparr> \<lparr>items = [0, 1]\<rparr> (REMOVE_ITEM ''a'') of
        (heap1, state1) \<Rightarrow> cartReducer heap1 state1 (REMOVE_ITEM ''a''))
   = (\<lparr>cell = (\<lambda>r. \<lparr>product_id = ''b'', quantity = 2\<rparr>)(0 := \<lparr>product_id = ''a'', quantity = 1\<rparr>),
       fresh = 2\<rparr>, \<lparr>items = [1]\<rparr>)"
  using remove_item_idempotent
     [of "''c''"
         "\<lparr>cell = (\<lambda>r. \<lparr>product_id = ''b'', quantity = 2\<rparr>)(0 := \<lparr>product_id = ''a'', quantity = 1\<rparr>),
           fresh = 2\<rparr>" "\<lparr>items = [0, 1]\<rparr>"]
    remove_item_idempotent
     [of "''a''"
         "\<lparr>cell = (\<lambda>r. \<lparr>product_id = ''b'', quantity = 2\<rparr>)(0 := \<lparr>product_id = ''a'', quantity = 1\<rparr>),
           fresh = 2\<rparr>" "\<lparr>items = [0, 1]\<rparr>"]
  by simp

text \<open>
  Claim C10. For every cart state, a \<^verbatim>\<open>SET_CART\<close> action whose payload has no \<^verbatim>\<open>items\<close>
  (absent or null) yields a state with an empty item list, and one whose payload carries
  an items list yields a state whose item list is exactly that list, whatever the previous
  items were; the rest of the state is kept.
\<close>

theorem set_cart_replaces_items:
  "cartReducer heap state (SET_CART None) = (heap, state\<lparr>items := []\<rparr>)
   \<and> lines_after heap state (SET_CART None) = []
   \<and> cartReducer heap state (SET_CART (Some xs)) = (heap, state\<lparr>items := xs\<rparr>)
   \<and> lines_after heap state (SET_CART (Some xs)) = map (cell heap) xs"
  by (simp add: lines_after_def lines_def)

text \<open>Both kinds of payload applied to a cart with one line.\<close>

theorem set_cart_replaces_items_witness:
  "lines_after
     \<lparr>cell = (\<lambda>r. \<lparr>product_id = ''b'', quantity = 2\<rparr>)(0 := \<lparr>product_id = ''a'', quantity = 1\<rparr>),
      fresh = 2\<rparr> \<lparr>items = [0]\<rparr> (SET_CART None) = []
   \<and> lines_after
     \<lparr>cell = (\<lambda>r. \<lparr>product_id = ''b'', quantity = 2\<rparr>)(0 := \<lparr>product_id = ''a'', quantity = 1\<rparr>),
      fresh = 2\<rparr> \<lparr>items = [0]\<rparr> (SET_CART (Some [1]))
     = [\<lparr>product_id = ''b'', quantity = 2\<rparr>]"
  using set_cart_replaces_items
     [of "\<lparr>cell = (\<lambda>r. \<lparr>product_id = ''b'', quantity = 2\<rparr>)(0 := \<lparr>product_id = ''a'', quantity = 1\<rparr>),
           fresh = 2\<rparr>" "\<lparr>items = [0]\<rparr>" "[1]"]
  by simp

subsection \<open>Session handling\<close>

lemma fetchUser_rejected:
  assumes "get_me (authorization st) = Inl e"
  shows "fetchUser get_me st = (Inr (), st\<lparr>token := None, authorization := None, loading := False\<rparr>)"
  using assms by (simp add: fetchUser_def)

lemma fetchUser_resolves: "fst (fetchUser get_me st) = Inr ()"
  by (simp add: fetchUser_def)

text \<open>
  Claim C3. If the profile fetch (\<^verbatim>\<open>GET /api/me\<close>) fails, for whatever error \<open>e\<close>, then
  \<^verbatim>\<open>fetchUser\<close> resolves without an error, and afterwards the stored token is removed,
  the \<^verbatim>\<open>Authorization\<close> default header is removed, the user profile is what it was and
  \<^verbatim>\<open>loading\<close> is false. For the fetch that \<^verbatim>\<open>AuthProvider\<close> performs at mount with a
  persisted (non-empty) token, where the profile starts absent, the resulting state is
  fully signed out: no token, no header, no user, not loading.
\<close>

theorem failed_profile_fetch_signs_out:
  "(get_me (authorization st) = Inl e \<longrightarrow>
      fst (fetchUser get_me st) = Inr () \<and>
      token (snd (fetchUser get_me st)) = None \<and>
      authorization (snd (fetchUser get_me st)) = None \<and>
      user (snd (fetchUser get_me st)) = user st \<and>
      loading (snd (fetchUser get_me st)) = False)
   \<and> (stored \<noteq> [] \<and> get_me (Some (''Bearer '' @ stored)) = Inl e \<longrightarrow>
      mount_effect get_me (initial_auth (Some stored)) =
        \<lparr>token = None, authorization = None, user = None, loading = False\<rparr>)"
  by (simp add: fetchUser_def mount_effect_def initial_auth_def)

text \<open>
  An expired token answered with status 401 at mount, and a network failure in a direct
  call of \<^verbatim>\<open>fetchUser\<close>: both end signed out, the latter returning no error.
\<close>

theorem failed_profile_fetch_signs_out_witness:
  "mount_effect (\<lambda>h. Inl (HttpStatus 401)) (initial_auth (Some ''expired''))
     = (\<lparr>token = None, authorization = None, user = None, loading = False\<rparr> :: nat auth_state)
   \<and> fetchUser (\<lambda>h. Inl NetworkError)
        \<lparr>token = Some ''t'', authorization = Some ''Bearer t'', user = None, loading = True\<rparr>
     = (Inr (), (\<lparr>token = None, authorization = None, user = None, loading = False\<rparr> :: nat auth_state))"
  using failed_profile_fetch_signs_out
          [of "\<lambda>h. Inl (HttpStatus 401)" "initial_auth (Some ''expired'')" "HttpStatus 401" "''expired''"]
        failed_profile_fetch_signs_out
          [of "\<lambda>h. Inl NetworkError"
              "\<lparr>token = Some ''t'', authorization = Some ''Bearer t'', user = None, loading = True\<rparr>"
              NetworkError "''t''"]
  by (simp add: fetchUser_def)

text \<open>
  Claim C7. \<^verbatim>\<open>register\<close> passes the form data to the registration endpoint and returns
  what the endpoint answers, and the auth state afterwards is the auth state before: no
  token is written to local storage, no \<^verbatim>\<open>Authorization\<close> header is set, and the user
  profile is not changed.
\<close>

theorem register_keeps_auth_state:
  "snd (register post_register userData st) = st
   \<and> token (snd (register post_register userData st)) = token st
   \<and> authorization (snd (register post_register userData st)) = authorization st
   \<and> user (snd (register post_register userData st)) = user st
   \<and> fst (register post_register userData st) = post_register userData"
  by (simp add: register_def split: sum.split)

text \<open>A successful registration from the signed-out initial state stays signed out.\<close>

theorem register_keeps_auth_state_witness:
  "register (\<lambda>form. if form = ''new@example.com'' then Inr ''created'' else Inl (HttpStatus 400))
      ''new@example.com'' (initial_auth None :: nat auth_state)
   = (Inr ''created'', initial_auth None)"
  using register_keeps_auth_state
          [of "\<lambda>form. if form = ''new@example.com'' then Inr ''created'' else Inl (HttpStatus 400)"
              "''new@example.com''" "initial_auth None :: nat auth_state"]
  by (simp add: prod_eq_iff)

text \<open>By contrast, a successful \<^verbatim>\<open>login\<close> whose profile fetch succeeds does establish a session.\<close>

lemma login_establishes_session:
  assumes "post_login email password = Inr data"
    and "get_me (Some (''Bearer '' @ access_token data)) = Inr profile"
  shows "login post_login get_me email password st =
           (Inr data, st\<lparr>token := Some (access_token data),
                         authorization := Some (''Bearer '' @ access_token data),
                         user := Some profile, loading := False\<rparr>)"
  using assms by (simp add: login_def fetchUser_def)

subsection \<open>Filter round trip\<close>




text \<open>When the catalog request fails, the display stays as it was.\<close>

lemma filter_clear_request_fails:
  "shown_products (handleFilterChange (\<lambda>params. Inl NetworkError) [''brand'' \<mapsto> ''Dell'']
      [''XPS''] ''brand'' []) = [''XPS'']"
  by (simp add: handleFilterChange_def Let_def fetchProducts_def)

subsection \<open>Featured products of the Home page\<close>

lemma spec_first_featured_take: "spec_first_featured n ps = take n (filter featured ps)"
  by (induction n ps rule: spec_first_featured.induct) simp_all

text \<open>
  Claim C6. For every product list, the Home page's featured selection has at most 3
  products, every selected product has its \<^verbatim>\<open>featured\<close> flag set, and the selection is the
  first up to three featured products in list order: it equals \<open>spec_first_featured 3\<close>,
  it is an initial segment of the featured products in list order, and it has 3 elements
  unless there are fewer featured products, in which case it has all of them.
\<close>

theorem featuredProducts_first_three:
  "length (featuredProducts products) \<le> 3
   \<and> (\<forall>p\<in>set (featuredProducts products). featured p)
   \<and> featuredProducts products = spec_first_featured 3 products
   \<and> length (featuredProducts products) = min 3 (length (filter featured products))
   \<and> (\<exists>rest. filter featured products = featuredProducts products @ rest)"
proof (intro conjI)
  show "length (featuredProducts products) \<le> 3"
    by (simp add: featuredProducts_def)
  show "\<forall>p\<in>set (featuredProducts products). featured p"
    by (auto simp: featuredProducts_def dest: in_set_takeD)
  show "featuredProducts products = spec_first_featured 3 products"
    by (simp add: featuredProducts_def spec_first_featured_take)
  show "length (featuredProducts products) = min 3 (length (filter featured products))"
    by (simp add: featuredProducts_def min.commute)
  have "filter featured products = featuredProducts products @ drop 3 (filter featured products)"
    by (simp add: featuredProducts_def)
  then show "\<exists>rest. filter featured products = featuredProducts products @ rest" ..
qed

text \<open>Five products, four of them featured: the first three featured ones are selected.\<close>

theorem featuredProducts_first_three_witness:
  "featuredProducts
     [\<lparr>featured = True, \<dots> = ''a''\<rparr>, \<lparr>featured = False, \<dots> = ''b''\<rparr>,
      \<lparr>featured = True, \<dots> = ''c''\<rparr>, \<lparr>featured = True, \<dots> = ''d''\<rparr>,
      \<lparr>featured = True, \<dots> = ''e''\<rparr>]
   = [\<lparr>featured = True, \<dots> = ''a''\<rparr>, \<lparr>featured = True, \<dots> = ''c''\<rparr>,
      \<lparr>featured = True, \<dots> = ''d''\<rparr>]"
  using featuredProducts_first_three
     [of "[\<lparr>featured = True, \<dots> = ''a''\<rparr>, \<lparr>featured = False, \<dots> = ''b''\<rparr>,
      \<lparr>featured = True, \<dots> = ''c''\<rparr>, \<lparr>featured = True, \<dots> = ''d''\<rparr>,
      \<lparr>featured = True, \<dots> = ''e''\<rparr>]"]
  by (simp add: numeral_3_eq_3)

end
